theory Spec2Isabelle
  imports Complex_Main
begin

section \<open>Pixel Garden: numbers and the seed record\<close>

text \<open>
  The program is the React component \<^verbatim>\<open>App\<close> (Pixel Garden). Its numbers are
  JavaScript numbers; they are embedded as \<^typ>\<open>real\<close> with exact arithmetic. The one
  division whose divisor is not a constant (\<^verbatim>\<open>dist / (s.size + 1)\<close>) is written with
  \<open>js_div\<close>, which has no finite value on a zero divisor. Every call of
  \<^verbatim>\<open>Math.random()\<close> is a parameter of the embedding: a single draw where the code
  draws once, a stream of draws with a cursor where a loop draws repeatedly.
\<close>

text \<open>
  The seed object \<^verbatim>\<open>{ x, y, size, life, hueBase, id }\<close>. The fields \<^verbatim>\<open>x\<close>,
  \<^verbatim>\<open>y\<close>, \<^verbatim>\<open>size\<close> and \<^verbatim>\<open>id\<close> carry the suffix \<open>_s\<close>, since HOL uses
  \<open>size\<close> and \<open>id\<close> itself and \<open>x\<close>, \<open>y\<close> are wanted as variables. Every planting
  builds a fresh object, and the seed loop mutates the object at its own index only;
  the population is therefore a list of seed values, updated in place by index.
\<close>

record seed =
  x_s :: real
  y_s :: real
  size_s :: real
  life :: real
  hueBase :: real
  id_s :: string

text \<open>The remainder operator \<^verbatim>\<open>%\<close>: the quotient is truncated towards zero, so the
  result has the sign of the dividend.\<close>

definition js_trunc :: "real \<Rightarrow> int" where
  "js_trunc v = (if 0 \<le> v then \<lfloor>v\<rfloor> else \<lceil>v\<rceil>)"

definition js_rem :: "real \<Rightarrow> real \<Rightarrow> real" where
  "js_rem a b = a - b * of_int (js_trunc (a / b))"

text \<open>A division that is finite only on a non-zero divisor.\<close>

definition js_div :: "real \<Rightarrow> real \<Rightarrow> real option" where
  "js_div a b = (if b = 0 then None else Some (a / b))"

section \<open>Growth step and expiry (the body of the seed loop in \<^verbatim>\<open>draw\<close>)\<close>

text \<open>
  \<^verbatim>\<open>s.life += 0.02 * speed;\<close>
  \<^verbatim>\<open>s.size += (0.3 * speed) * (1 - s.size / 150) * (s.life < 10 ? 1 : 0.1);\<close>
  The test \<^verbatim>\<open>s.life < 10\<close> reads the life that was just increased.
\<close>

definition growth_step :: "real \<Rightarrow> seed \<Rightarrow> seed" where
  "growth_step speed s =
     (let s1 = s\<lparr>life := life s + 0.02 * speed\<rparr>
      in s1\<lparr>size_s := size_s s1
            + (0.3 * speed) * (1 - size_s s1 / 150) * (if life s1 < 10 then 1 else 0.1)\<rparr>)"

text \<open>\<^verbatim>\<open>if (s.life > 120 || s.size > 220)\<close>\<close>

definition expired :: "seed \<Rightarrow> bool" where
  "expired s = (life s > 120 \<or> size_s s > 220)"

text \<open>Successive growth steps of one seed, one speed per frame, first frame first.\<close>

fun grow :: "real list \<Rightarrow> seed \<Rightarrow> seed" where
  "grow [] s = s"
| "grow (v # vs) s = grow vs (growth_step v s)"

text \<open>\<^verbatim>\<open>Math.floor((Math.random() + s.life * 0.05) * (speed * 0.5))\<close>\<close>

definition spawnCount :: "real \<Rightarrow> real \<Rightarrow> real \<Rightarrow> int" where
  "spawnCount r lf speed = \<lfloor>(r + lf * 0.05) * (speed * 0.5)\<rfloor>"

section \<open>Planting (\<^verbatim>\<open>plantSeed\<close>)\<close>

text \<open>
  The identity token is \<^verbatim>\<open>Math.random().toString(36).slice(2, 9)\<close>. Which digits
  \<^verbatim>\<open>toString(36)\<close> prints for a number is decided by the JavaScript engine, not by
  this program (for a radix other than 10 the language leaves the algorithm to the
  implementation). The printing function is therefore a parameter \<open>toString36\<close> of the
  embedding; all that is used of it is that it is a function of the number it prints.
\<close>

text \<open>\<^verbatim>\<open>str.slice(a, b)\<close> for \<open>0 \<le> a \<le> b\<close>; both ends are clamped to the length.\<close>

definition slice :: "nat \<Rightarrow> nat \<Rightarrow> string \<Rightarrow> string" where
  "slice a b str = take (b - a) (drop a str)"

definition id_token :: "(real \<Rightarrow> string) \<Rightarrow> real \<Rightarrow> string" where
  "id_token toString36 r = slice 2 9 (toString36 r)"

text \<open>
  The object literal \<^verbatim>\<open>seed\<close> of \<^verbatim>\<open>plantSeed\<close>. \<open>rleft\<close> and \<open>rtop\<close> are
  \<^verbatim>\<open>rect.left\<close> and \<^verbatim>\<open>rect.top\<close> of the canvas's bounding rectangle, \<open>pal\<close> is
  \<^verbatim>\<open>paletteSeed\<close>, and \<open>r1\<close>, \<open>r2\<close>, \<open>r3\<close> are the three draws in the order the
  literal makes them (size, hue, identity).
\<close>

definition new_seed ::
  "(real \<Rightarrow> string) \<Rightarrow> real \<Rightarrow> real \<Rightarrow> real \<Rightarrow> real \<Rightarrow> real \<Rightarrow> real \<Rightarrow> real \<Rightarrow> real \<Rightarrow> seed" where
  "new_seed toString36 rleft rtop pal clientX clientY r1 r2 r3 =
     \<lparr>x_s = clientX - rleft,
      y_s = clientY - rtop,
      size_s = 2 + r1 * 6,
      life = 0,
      hueBase = js_rem (pal + r2 * 0.6) 1,
      id_s = id_token toString36 r3\<rparr>"

text \<open>\<^verbatim>\<open>setSeeds((s) => [seed, ...s])\<close>\<close>

definition plantSeed ::
  "(real \<Rightarrow> string) \<Rightarrow> real \<Rightarrow> real \<Rightarrow> real \<Rightarrow> real \<Rightarrow> real \<Rightarrow> real \<Rightarrow> real \<Rightarrow> real
     \<Rightarrow> seed list \<Rightarrow> seed list" where
  "plantSeed toString36 rleft rtop pal clientX clientY r1 r2 r3 sds =
     new_seed toString36 rleft rtop pal clientX clientY r1 r2 r3 # sds"

section \<open>The pixel spawner (the inner loop of \<^verbatim>\<open>draw\<close>) and \<^verbatim>\<open>drawPixel\<close>\<close>

text \<open>
  One call of \<^verbatim>\<open>drawPixel(ctx, x, y, size, hue, alpha)\<close>: the arguments it received
  and what it put on the canvas (\<^verbatim>\<open>globalAlpha\<close>, the lightness of the fill style,
  the radius of the arc). An alpha that is not a finite number is \<open>None\<close>.
\<close>

record dot =
  dot_x :: real
  dot_y :: real
  dot_size :: real
  dot_hue :: real
  dot_alpha :: "real option"
  dot_globalAlpha :: "real option"
  dot_lightness :: real
  dot_radius :: real

text \<open>
  \<^verbatim>\<open>ctx.globalAlpha = alpha * 0.9;\<close>
  \<^verbatim>\<open>ctx.fillStyle = `hsl(${hue}, 90%, ${Math.random() * 10 + 45}%)`;\<close>
  \<^verbatim>\<open>ctx.arc(x, y, size * (0.35 + Math.random() * 0.85), 0, Math.PI * 2);\<close>
  \<open>rl\<close> and \<open>ra\<close> are the two draws, in this order.
\<close>

definition drawPixel ::
  "real \<Rightarrow> real \<Rightarrow> real \<Rightarrow> real \<Rightarrow> real option \<Rightarrow> real \<Rightarrow> real \<Rightarrow> dot" where
  "drawPixel x y sz hue alpha rl ra =
     \<lparr>dot_x = x, dot_y = y, dot_size = sz, dot_hue = hue, dot_alpha = alpha,
      dot_globalAlpha = map_option (\<lambda>a. a * 0.9) alpha,
      dot_lightness = rl * 10 + 45,
      dot_radius = sz * (0.35 + ra * 0.85)\<rparr>"

text \<open>\<^verbatim>\<open>Math.min(1, 0.8 * (1 - dist / (s.size + 1)))\<close>\<close>

definition pixel_alpha :: "real \<Rightarrow> real \<Rightarrow> real option" where
  "pixel_alpha dst sz = map_option (\<lambda>q. min 1 (0.8 * (1 - q))) (js_div dst (sz + 1))"

text \<open>\<^verbatim>\<open>(s.hueBase * 360 + (Math.sin(s.life + k) * 20)) % 360\<close>\<close>

definition pixel_hue :: "real \<Rightarrow> real \<Rightarrow> nat \<Rightarrow> real" where
  "pixel_hue hb lf k = js_rem (hb * 360 + sin (lf + real k) * 20) 360"

text \<open>
  The body of the loop over \<open>k\<close>. \<open>rnd\<close> is the stream of draws and \<open>n\<close> the position
  of the next one; the body makes five draws: angle, distance (\<open>dst\<close> is the source's
  \<^verbatim>\<open>dist\<close>), brush factor, and the two of \<^verbatim>\<open>drawPixel\<close>.
\<close>

definition spawn_pixel :: "(nat \<Rightarrow> real) \<Rightarrow> nat \<Rightarrow> real \<Rightarrow> seed \<Rightarrow> nat \<Rightarrow> dot" where
  "spawn_pixel rnd n brush s k =
     (let angle = rnd n * pi * 2;
          dst = rnd (n + 1) * size_s s * 0.9;
          px = x_s s + cos angle * dst;
          py = y_s s + sin angle * dst;
          alpha = pixel_alpha dst (size_s s);
          hue = pixel_hue (hueBase s) (life s) k
      in drawPixel px py (max 1 (brush * (0.3 + rnd (n + 2) * 0.8))) hue alpha
           (rnd (n + 3)) (rnd (n + 4)))"

text \<open>\<^verbatim>\<open>for (let k = 0; k < spawnCount; k++)\<close>; the last argument counts the iterations
  that are left.\<close>

fun spawn_loop :: "(nat \<Rightarrow> real) \<Rightarrow> nat \<Rightarrow> real \<Rightarrow> seed \<Rightarrow> nat \<Rightarrow> nat \<Rightarrow> dot list" where
  "spawn_loop rnd n brush s k 0 = []"
| "spawn_loop rnd n brush s k (Suc m) =
     spawn_pixel rnd n brush s k # spawn_loop rnd (n + 5) brush s (Suc k) m"

text \<open>
  \<^verbatim>\<open>drawRing(ctx, x, y, radius, hue, alpha)\<close> strokes an arc of radius
  \<^verbatim>\<open>Math.max(2, radius)\<close>.
\<close>

record ring =
  ring_x :: real
  ring_y :: real
  ring_radius :: real
  ring_hue :: real
  ring_alpha :: real

definition drawRing :: "real \<Rightarrow> real \<Rightarrow> real \<Rightarrow> real \<Rightarrow> real \<Rightarrow> ring" where
  "drawRing x y radius hue alpha =
     \<lparr>ring_x = x, ring_y = y, ring_radius = max 2 radius, ring_hue = hue, ring_alpha = alpha\<rparr>"

datatype cmd = Dot dot | Ring ring

section \<open>One frame (\<^verbatim>\<open>draw\<close>)\<close>

text \<open>
  The body of the loop over the seeds, up to the removal test: the growth step, the
  spawned pixels, the ring drawn with probability \<open>0.08 * speed\<close>. It returns the seed
  as mutated, the drawing commands in the order they were issued, and the position of the
  next draw.
\<close>

definition seed_body ::
  "(nat \<Rightarrow> real) \<Rightarrow> nat \<Rightarrow> real \<Rightarrow> real \<Rightarrow> seed \<Rightarrow> seed \<times> cmd list \<times> nat" where
  "seed_body rnd n speed brush s0 =
     (let s = growth_step speed s0;
          cnt = nat (spawnCount (rnd n) (life s) speed);
          dots = spawn_loop rnd (n + 1) brush s 0 cnt;
          n1 = n + 1 + 5 * cnt
      in if rnd n1 < 0.08 * speed
         then (s, map Dot dots
                  @ [Ring (drawRing (x_s s) (y_s s) (size_s s * (0.9 + rnd (n1 + 1) * 0.4))
                       (hueBase s * 360) 0.08)],
               n1 + 2)
         else (s, map Dot dots, n1 + 1))"

text \<open>\<^verbatim>\<open>seeds.splice(i, 1)\<close>\<close>

definition splice :: "nat \<Rightarrow> 'a list \<Rightarrow> 'a list" where
  "splice i xs = take i xs @ drop (Suc i) xs"

text \<open>
  \<^verbatim>\<open>for (let i = seeds.length - 1; i >= 0; i--)\<close>. The counter of the embedding is
  \<open>i + 1\<close>, so that the loop ends at 0. Reading \<^verbatim>\<open>seeds[i]\<close> beyond the end gives
  \<^verbatim>\<open>undefined\<close> and the next line throws a TypeError: that is \<open>None\<close>. The result
  holds the array after the loop, the commands, and the flag \<^verbatim>\<open>updated\<close>.
\<close>

fun seed_loop ::
  "(nat \<Rightarrow> real) \<Rightarrow> nat \<Rightarrow> real \<Rightarrow> real \<Rightarrow> nat \<Rightarrow> seed list
     \<Rightarrow> (seed list \<times> cmd list \<times> bool) option" where
  "seed_loop rnd n speed brush 0 sds = Some (sds, [], False)"
| "seed_loop rnd n speed brush (Suc i) sds =
     (if length sds \<le> i then None
      else case seed_body rnd n speed brush (sds ! i) of
        (s, cmds, n') \<Rightarrow>
          (case seed_loop rnd n' speed brush i
                  (if expired s then splice i (sds[i := s]) else sds[i := s]) of
             None \<Rightarrow> None
           | Some (out, cmds', updated) \<Rightarrow> Some (out, cmds @ cmds', expired s \<or> updated)))"

text \<open>
  \<^verbatim>\<open>draw\<close>: nothing happens unless \<^verbatim>\<open>running\<close>. The fade rectangle, the grid and
  the background stars are left out: they read neither the seeds nor the pixels, and the
  stars are drawn after the seed loop. When \<^verbatim>\<open>updated\<close> is set the state receives a
  copy of the array, which holds the same seeds.
\<close>

definition draw ::
  "bool \<Rightarrow> (nat \<Rightarrow> real) \<Rightarrow> real \<Rightarrow> real \<Rightarrow> seed list \<Rightarrow> (seed list \<times> cmd list \<times> bool) option" where
  "draw running rnd speed brush sds =
     (if \<not> running then Some (sds, [], False)
      else seed_loop rnd 0 speed brush (length sds) sds)"

section \<open>The garden over time: frames, plantings and \<^verbatim>\<open>clear\<close>\<close>

datatype event =
    Frame "nat \<Rightarrow> real" real real
  | Plant real real real real real real real real
  | Clear

text \<open>One event on the population; \<open>toString36\<close> is the engine's printing function.\<close>

fun step :: "(real \<Rightarrow> string) \<Rightarrow> event \<Rightarrow> seed list \<Rightarrow> seed list option" where
  "step toString36 (Frame rnd speed brush) sds =
     map_option fst (draw True rnd speed brush sds)"
| "step toString36 (Plant rleft rtop pal clientX clientY r1 r2 r3) sds =
     Some (plantSeed toString36 rleft rtop pal clientX clientY r1 r2 r3 sds)"
| "step toString36 Clear sds = Some []"

fun run :: "(real \<Rightarrow> string) \<Rightarrow> event list \<Rightarrow> seed list \<Rightarrow> seed list option" where
  "run toString36 [] sds = Some sds"
| "run toString36 (e # es) sds =
     (case step toString36 e sds of None \<Rightarrow> None | Some sds' \<Rightarrow> run toString36 es sds')"


section \<open>The resize handler\<close>

text \<open>
  The fields of the canvas and its context that \<^verbatim>\<open>handleResize\<close> reads and writes;
  \<open>transform\<close> holds the six arguments of \<^verbatim>\<open>ctx.setTransform\<close>.
\<close>

record canvas =
  width :: real
  height :: real
  clientWidth :: real
  clientHeight :: real
  transform :: "real \<times> real \<times> real \<times> real \<times> real \<times> real"

definition handleResize :: "real \<Rightarrow> canvas \<Rightarrow> canvas" where
  "handleResize devicePixelRatio c =
     c\<lparr>width := clientWidth c * devicePixelRatio,
       height := clientHeight c * devicePixelRatio,
       transform := (devicePixelRatio, 0, 0, devicePixelRatio, 0, 0)\<rparr>"

section \<open>The hue as the specification words it\<close>

text \<open>The mathematical modulo, with a value in \<open>[0, b)\<close> for positive \<open>b\<close>.\<close>

definition spec_mod :: "real \<Rightarrow> real \<Rightarrow> real" where
  "spec_mod a b = a - b * of_int \<lfloor>a / b\<rfloor>"

definition spec_hue :: "real \<Rightarrow> real \<Rightarrow> nat \<Rightarrow> real" where
  "spec_hue hb lf k = spec_mod (hb * 360 + sin (lf + real k) * 20) 360"

section \<open>Auxiliary quantities of the proofs\<close>

text \<open>A seed survives a sequence of frame speeds when no growth step on the way leaves it
  expired.\<close>

fun survives :: "real list \<Rightarrow> seed \<Rightarrow> bool" where
  "survives [] s = True"
| "survives (v # vs) s = (\<not> expired (growth_step v s) \<and> survives vs (growth_step v s))"

text \<open>A sequence of frames, each with its draws, speed and brush, as events; and its
  speeds.\<close>

definition frames_of :: "((nat \<Rightarrow> real) \<times> real \<times> real) list \<Rightarrow> event list" where
  "frames_of fs = map (\<lambda>(rnd, speed, brush). Frame rnd speed brush) fs"

definition speeds_of :: "((nat \<Rightarrow> real) \<times> real \<times> real) list \<Rightarrow> real list" where
  "speeds_of fs = map (\<lambda>(rnd, speed, brush). speed) fs"

text \<open>A stream that returns the same draw every time.\<close>

definition const_draws :: "real \<Rightarrow> nat \<Rightarrow> real" where
  "const_draws r i = r"

text \<open>The fraction of the gap to 150 that one growth step closes: the step's size is
  \<open>size + pull * (150 - size)\<close> (lemma \<open>growth_step_size_pull\<close>).\<close>

definition pull :: "real \<Rightarrow> seed \<Rightarrow> real" where
  "pull v s = v * (if life s + 0.02 * v < 10 then 1 else 0.1) / 500"

section \<open>Properties of the growth step\<close>

lemma growth_step_life: "life (growth_step v s) = life s + 0.02 * v"
  by (simp add: growth_step_def Let_def)

lemma growth_step_size:
  "size_s (growth_step v s) =
     size_s s + (0.3 * v) * (1 - size_s s / 150) * (if life s + 0.02 * v < 10 then 1 else 0.1)"
  by (simp add: growth_step_def Let_def)

lemma grow_append: "grow (vs @ ws) s = grow ws (grow vs s)"
  by (induction vs arbitrary: s) simp_all

lemma growth_step_size_pull:
  "size_s (growth_step v s) = size_s s + pull v s * (150 - size_s s)"
  by (simp add: growth_step_size pull_def field_simps)

lemma growth_step_gap:
  "150 - size_s (growth_step v s) = (1 - pull v s) * (150 - size_s s)"
  by (simp add: growth_step_size_pull algebra_simps)

lemma pull_pos: "0 < v \<Longrightarrow> 0 < pull v s"
  by (simp add: pull_def)

lemma pull_less_1: "0 < v \<Longrightarrow> v \<le> 3 \<Longrightarrow> pull v s < 1"
  by (simp add: pull_def)

lemma growth_step_size_mono:
  assumes "size_s s \<le> 150" and "0 < v"
  shows "size_s s \<le> size_s (growth_step v s)"
proof -
  have "0 \<le> pull v s * (150 - size_s s)"
    using assms pull_pos [of v s] by (intro mult_nonneg_nonneg) simp_all
  then show ?thesis by (simp add: growth_step_size_pull)
qed

lemma growth_step_less_150:
  assumes "size_s s < 150" and "0 < v" and "v \<le> 3"
  shows "size_s (growth_step v s) < 150"
proof -
  have "0 < (1 - pull v s) * (150 - size_s s)"
    using assms pull_less_1 [of v s] by (intro mult_pos_pos) simp_all
  then have "0 < 150 - size_s (growth_step v s)" by (simp only: growth_step_gap)
  then show ?thesis by simp
qed

lemma growth_step_life_mono: "0 < v \<Longrightarrow> life s \<le> life (growth_step v s)"
  by (simp add: growth_step_life)

lemma grow_less_150:
  "size_s s < 150 \<Longrightarrow> \<forall>v\<in>set vs. 0 < v \<and> v \<le> 3 \<Longrightarrow> size_s (grow vs s) < 150"
proof (induction vs arbitrary: s)
  case Nil
  then show ?case by simp
next
  case (Cons v vs)
  from Cons.prems have "size_s (growth_step v s) < 150"
    by (intro growth_step_less_150) simp_all
  with Cons show ?case by simp
qed

lemma grow_mono_from:
  "size_s s < 150 \<Longrightarrow> \<forall>v\<in>set ws. 0 < v \<and> v \<le> 3 \<Longrightarrow>
     size_s s \<le> size_s (grow ws s) \<and> life s \<le> life (grow ws s)"
proof (induction ws arbitrary: s)
  case Nil
  then show ?case by simp
next
  case (Cons v ws)
  let ?t = "growth_step v s"
  from Cons.prems have v: "0 < v" "v \<le> 3" by simp_all
  have t150: "size_s ?t < 150" using Cons.prems(1) v by (rule growth_step_less_150)
  have rest: "\<forall>u\<in>set ws. 0 < u \<and> u \<le> 3" using Cons.prems(2) by simp
  from Cons.IH [OF t150 rest]
  have "size_s ?t \<le> size_s (grow ws ?t)" and "life ?t \<le> life (grow ws ?t)" by simp_all
  moreover have "size_s s \<le> size_s ?t" using Cons.prems(1) v(1)
    by (intro growth_step_size_mono) simp_all
  moreover have "life s \<le> life ?t" using v(1) by (rule growth_step_life_mono)
  ultimately show ?case by simp
qed

text \<open>
  C1 (as found in the code). A seed with age 0 and size 5, advanced by one growth step at
  speed 1, has age 0.02 and a size strictly greater than 5 that equals
  \<open>5 + 0.3 * (1 - 5 / 150)\<close>, so it is not strictly less than that bound.
\<close>

theorem growth_step_age0_size5:
  "life (growth_step 1 \<lparr>x_s = px, y_s = py, size_s = 5, life = 0, hueBase = h, id_s = tok\<rparr>) = 0.02
   \<and> 5 < size_s (growth_step 1 \<lparr>x_s = px, y_s = py, size_s = 5, life = 0, hueBase = h, id_s = tok\<rparr>)
   \<and> size_s (growth_step 1 \<lparr>x_s = px, y_s = py, size_s = 5, life = 0, hueBase = h, id_s = tok\<rparr>)
       = 5 + 0.3 * (1 - 5 / 150)"
  by (simp add: growth_step_life growth_step_size)

text \<open>C1 as stated fails: the size reaches the bound, it does not stay below it.\<close>

theorem growth_step_age0_size5_not_below:
  "\<not> (life (growth_step 1 \<lparr>x_s = 0, y_s = 0, size_s = 5, life = 0, hueBase = 0, id_s = ''''\<rparr>) = 0.02
      \<and> 5 < size_s (growth_step 1 \<lparr>x_s = 0, y_s = 0, size_s = 5, life = 0, hueBase = 0, id_s = ''''\<rparr>)
      \<and> size_s (growth_step 1 \<lparr>x_s = 0, y_s = 0, size_s = 5, life = 0, hueBase = 0, id_s = ''''\<rparr>)
          < 5 + 0.3 * (1 - 5 / 150))"
  by (simp add: growth_step_life growth_step_size)

text \<open>
  C2. Every seed of the program is made by \<^verbatim>\<open>plantSeed\<close> (size draw in [0,1)) and
  every speed comes from the speed slider, whose values lie in (0, 3]. For every such
  seed and every sequence of such speeds, applying the growth step any number of times
  never decreases the size or the age: both are at least as large after any later step
  as after any earlier one.
\<close>

theorem planted_grow_monotone:
  assumes "0 \<le> r1" and "r1 < 1" and "\<forall>v\<in>set (vs @ ws). 0 < v \<and> v \<le> 3"
  shows "size_s (grow vs (new_seed toString36 rleft rtop pal cx cy r1 r2 r3))
           \<le> size_s (grow (vs @ ws) (new_seed toString36 rleft rtop pal cx cy r1 r2 r3))
         \<and> life (grow vs (new_seed toString36 rleft rtop pal cx cy r1 r2 r3))
           \<le> life (grow (vs @ ws) (new_seed toString36 rleft rtop pal cx cy r1 r2 r3))"
proof -
  let ?s = "new_seed toString36 rleft rtop pal cx cy r1 r2 r3"
  have "size_s ?s < 150" using assms(2) by (simp add: new_seed_def)
  moreover have "\<forall>v\<in>set vs. 0 < v \<and> v \<le> 3" using assms(3) by simp
  ultimately have "size_s (grow vs ?s) < 150" by (rule grow_less_150)
  moreover have "\<forall>v\<in>set ws. 0 < v \<and> v \<le> 3" using assms(3) by simp
  ultimately show ?thesis unfolding grow_append by (rule grow_mono_from)
qed

theorem planted_grow_monotone_witness:
  "(0::real) \<le> 1/2 \<and> (1/2::real) < 1
   \<and> size_s (grow [1] (new_seed (\<lambda>r. ''0.i'') 0 0 0 10 20 (1/2) (1/2) (1/2)))
       \<le> size_s (grow [1, 3] (new_seed (\<lambda>r. ''0.i'') 0 0 0 10 20 (1/2) (1/2) (1/2)))
   \<and> life (grow [1] (new_seed (\<lambda>r. ''0.i'') 0 0 0 10 20 (1/2) (1/2) (1/2)))
       \<le> life (grow [1, 3] (new_seed (\<lambda>r. ''0.i'') 0 0 0 10 20 (1/2) (1/2) (1/2)))"
  using planted_grow_monotone [of "1/2" "[1]" "[3]" "\<lambda>r. ''0.i''" 0 0 0 10 20 "1/2" "1/2"]
  by simp

text \<open>
  C10. A seed made by \<^verbatim>\<open>plantSeed\<close> (size draw in [0,1), so initial size in [2,8)) and
  advanced by growth steps at any speeds in (0,3] keeps a size strictly below 150; the
  test \<open>size > 220\<close> never holds for it, and it is expired exactly when its life exceeds
  120.
\<close>

theorem planted_size_below_150:
  assumes "0 \<le> r1" and "r1 < 1" and "\<forall>v\<in>set vs. 0 < v \<and> v \<le> 3"
  shows "size_s (grow vs (new_seed toString36 rleft rtop pal cx cy r1 r2 r3)) < 150
         \<and> \<not> size_s (grow vs (new_seed toString36 rleft rtop pal cx cy r1 r2 r3)) > 220
         \<and> (expired (grow vs (new_seed toString36 rleft rtop pal cx cy r1 r2 r3))
              \<longleftrightarrow> life (grow vs (new_seed toString36 rleft rtop pal cx cy r1 r2 r3)) > 120)"
proof -
  let ?s = "new_seed toString36 rleft rtop pal cx cy r1 r2 r3"
  have "size_s ?s < 150" using assms(2) by (simp add: new_seed_def)
  then have "size_s (grow vs ?s) < 150" using assms(3) by (rule grow_less_150)
  then show ?thesis by (simp add: expired_def)
qed

theorem planted_size_below_150_witness:
  "(0::real) \<le> 1/2 \<and> (1/2::real) < 1
   \<and> size_s (grow [3, 1] (new_seed (\<lambda>r. ''0.i'') 0 0 0 10 20 (1/2) (1/2) (1/2))) < 150
   \<and> \<not> expired (grow [3, 1] (new_seed (\<lambda>r. ''0.i'') 0 0 0 10 20 (1/2) (1/2) (1/2)))"
  using planted_size_below_150 [of "1/2" "[3, 1]" "\<lambda>r. ''0.i''" 0 0 0 10 20 "1/2" "1/2"]
  by (simp add: growth_step_life new_seed_def)

section \<open>The spawn count\<close>

text \<open>
  C4. For a seed of age at least 0, a positive speed and a draw in [0,1), the spawn
  count of a tick is a non-negative integer.
\<close>

theorem spawnCount_nonneg:
  assumes "0 \<le> lf" and "0 < speed" and "0 \<le> r" and "r < 1"
  shows "0 \<le> spawnCount r lf speed"
proof -
  have "0 \<le> r + lf * 0.05" using assms by simp
  moreover have "0 \<le> speed * 0.5" using assms by simp
  ultimately have "0 \<le> (r + lf * 0.05) * (speed * 0.5)"
    by (rule mult_nonneg_nonneg)
  then show ?thesis by (simp add: spawnCount_def)
qed

theorem spawnCount_nonneg_witness:
  "(0::real) \<le> 100 \<and> (0::real) < 3 \<and> (0::real) \<le> 1/2 \<and> (1/2::real) < 1
     \<and> 0 \<le> spawnCount (1/2) 100 3 \<and> spawnCount (1/2) 100 3 = 8"
proof -
  have "spawnCount (1/2) 100 3 = \<lfloor>(33/4 :: real)\<rfloor>"
    by (simp add: spawnCount_def)
  also have "\<dots> = 8" by (simp add: floor_eq_iff)
  finally have e: "spawnCount (1/2) 100 3 = 8" .
  from spawnCount_nonneg [of 100 3 "1/2"] e show ?thesis by simp
qed

section \<open>The spawned pixels\<close>

lemma pixel_alpha_range:
  assumes "0 \<le> sz" and "0 \<le> r" and "r < 1"
  shows "\<exists>a. pixel_alpha (r * sz * 0.9) sz = Some a \<and> 0 \<le> a \<and> a \<le> 0.8"
proof -
  let ?q = "(r * sz * 0.9) / (sz + 1)"
  have pos: "0 < sz + 1" using assms by simp
  have "0 \<le> r * sz * 0.9" using assms by simp
  then have q0: "0 \<le> ?q" using pos by simp
  have "r * sz \<le> 1 * sz" using assms by (intro mult_right_mono) simp_all
  then have "r * sz * 0.9 \<le> sz + 1" using assms by simp
  then have q1: "?q \<le> 1" using pos by simp
  have "pixel_alpha (r * sz * 0.9) sz = Some (min 1 (0.8 * (1 - ?q)))"
    using pos by (simp add: pixel_alpha_def js_div_def)
  moreover have "0 \<le> min 1 (0.8 * (1 - ?q))" using q1 by simp
  moreover have "min 1 (0.8 * (1 - ?q)) \<le> 0.8" using q0 by simp
  ultimately show ?thesis by blast
qed

lemma spawn_pixel_alpha: "dot_alpha (spawn_pixel rnd n brush s k) = pixel_alpha (rnd (n + 1) * size_s s * 0.9) (size_s s)"
  by (simp add: spawn_pixel_def drawPixel_def Let_def)

lemma spawn_pixel_size: "dot_size (spawn_pixel rnd n brush s k) = max 1 (brush * (0.3 + rnd (n + 2) * 0.8))"
  by (simp add: spawn_pixel_def drawPixel_def Let_def)

lemma spawn_pixel_radius: "dot_radius (spawn_pixel rnd n brush s k) = max 1 (brush * (0.3 + rnd (n + 2) * 0.8)) * (0.35 + rnd (n + 4) * 0.85)"
  by (simp add: spawn_pixel_def drawPixel_def Let_def)

lemma spawn_pixel_hue: "dot_hue (spawn_pixel rnd n brush s k) = pixel_hue (hueBase s) (life s) k"
  by (simp add: spawn_pixel_def drawPixel_def Let_def)

lemma spawn_loop_length: "length (spawn_loop rnd n brush s k m) = m"
  by (induction m arbitrary: n k) simp_all

lemma spawn_loop_nth:
  "j < m \<Longrightarrow> spawn_loop rnd n brush s k m ! j = spawn_pixel rnd (n + 5 * j) brush s (k + j)"
proof (induction m arbitrary: n k j)
  case 0
  then show ?case by simp
next
  case (Suc m)
  show ?case
  proof (cases j)
    case 0
    then show ?thesis by simp
  next
    case (Suc j')
    with Suc.prems have "j' < m" by simp
    from Suc.IH [OF this, of "n + 5" "Suc k"] Suc show ?thesis by (simp add: algebra_simps)
  qed
qed

lemma spawn_loop_set:
  "d \<in> set (spawn_loop rnd n brush s k m) \<Longrightarrow> \<exists>j<m. d = spawn_pixel rnd (n + 5 * j) brush s (k + j)"
  by (metis in_set_conv_nth spawn_loop_length spawn_loop_nth)

text \<open>
  C5. For a seed of size at least 0 (size 0 included) and draws in [0,1), every pixel
  that the spawner emits has a finite alpha (the divisor \<open>size + 1\<close> is not zero) and
  that alpha lies in [0, 0.8].
\<close>

theorem spawned_alpha_range:
  assumes "0 \<le> size_s s" and "\<forall>i. 0 \<le> rnd i \<and> rnd i < 1"
  shows "\<forall>d\<in>set (spawn_loop rnd n brush s k m). \<exists>a. dot_alpha d = Some a \<and> 0 \<le> a \<and> a \<le> 0.8"
proof
  fix d assume "d \<in> set (spawn_loop rnd n brush s k m)"
  then obtain j where "d = spawn_pixel rnd (n + 5 * j) brush s (k + j)"
    using spawn_loop_set by blast
  then have "dot_alpha d = pixel_alpha (rnd (n + 5 * j + 1) * size_s s * 0.9) (size_s s)"
    by (simp add: spawn_pixel_alpha)
  moreover have "0 \<le> rnd (n + 5 * j + 1)" "rnd (n + 5 * j + 1) < 1" using assms(2) by simp_all
  ultimately show "\<exists>a. dot_alpha d = Some a \<and> 0 \<le> a \<and> a \<le> 0.8"
    using pixel_alpha_range [OF assms(1)] by simp
qed

theorem spawned_alpha_range_witness:
  "(0::real) \<le> 5 \<and> (0::real) \<le> 1/2 \<and> (1/2::real) < 1
   \<and> spawn_loop (const_draws (1/2)) 0 12 \<lparr>x_s = 0, y_s = 0, size_s = 5, life = 0, hueBase = 0, id_s = ''''\<rparr> 0 1 \<noteq> []
   \<and> dot_alpha (hd (spawn_loop (const_draws (1/2)) 0 12
        \<lparr>x_s = 0, y_s = 0, size_s = 5, life = 0, hueBase = 0, id_s = ''''\<rparr> 0 1)) = Some (1/2)"
  using spawned_alpha_range [of "\<lparr>x_s = 0, y_s = 0, size_s = 5, life = 0, hueBase = 0, id_s = ''''\<rparr>"
      "const_draws (1/2)" 0 12 0 1]
  by (simp add: const_draws_def spawn_pixel_alpha pixel_alpha_def js_div_def)

section \<open>The rendered radius\<close>

text \<open>
  C6 (as found in the code). For every spawned pixel the size handed to
  \<^verbatim>\<open>drawPixel\<close> equals \<open>max 1 (brush * (0.3 + random * 0.8))\<close> and is at least 1;
  the radius of the dot that is filled is that size times \<open>0.35 + random * 0.85\<close> for one
  more draw, and is at least 0.35.
\<close>

theorem spawned_radius:
  assumes "\<forall>i. 0 \<le> rnd i \<and> rnd i < 1"
  shows "\<forall>j<m. dot_size (spawn_loop rnd n brush s 0 m ! j) = max 1 (brush * (0.3 + rnd (n + 5 * j + 2) * 0.8))
           \<and> 1 \<le> dot_size (spawn_loop rnd n brush s 0 m ! j)
           \<and> dot_radius (spawn_loop rnd n brush s 0 m ! j)
               = dot_size (spawn_loop rnd n brush s 0 m ! j) * (0.35 + rnd (n + 5 * j + 4) * 0.85)
           \<and> 0.35 \<le> dot_radius (spawn_loop rnd n brush s 0 m ! j)"
proof (intro allI impI)
  fix j assume j: "j < m"
  let ?d = "spawn_loop rnd n brush s 0 m ! j"
  have d: "?d = spawn_pixel rnd (n + 5 * j) brush s j" using spawn_loop_nth [OF j, of rnd n brush s 0] by simp
  have sz: "dot_size ?d = max 1 (brush * (0.3 + rnd (n + 5 * j + 2) * 0.8))"
    by (simp add: d spawn_pixel_size)
  have rad: "dot_radius ?d = dot_size ?d * (0.35 + rnd (n + 5 * j + 4) * 0.85)"
    by (simp add: d spawn_pixel_size spawn_pixel_radius)
  have one: "1 \<le> dot_size ?d" by (simp add: sz)
  have "0 \<le> rnd (n + 5 * j + 4)" using assms by simp
  then have f: "0.35 \<le> 0.35 + rnd (n + 5 * j + 4) * 0.85" by simp
  have "1 * 0.35 \<le> dot_size ?d * (0.35 + rnd (n + 5 * j + 4) * 0.85)"
    using one f by (intro mult_mono) simp_all
  then have "0.35 \<le> dot_radius ?d" by (simp add: rad)
  with sz rad one show "dot_size ?d = max 1 (brush * (0.3 + rnd (n + 5 * j + 2) * 0.8))
           \<and> 1 \<le> dot_size ?d
           \<and> dot_radius ?d = dot_size ?d * (0.35 + rnd (n + 5 * j + 4) * 0.85)
           \<and> 0.35 \<le> dot_radius ?d" by simp
qed

theorem spawned_radius_witness:
  "dot_size (spawn_loop (const_draws (1/2)) 0 12
        \<lparr>x_s = 0, y_s = 0, size_s = 5, life = 0, hueBase = 0, id_s = ''''\<rparr> 0 1 ! 0) = 8.4
   \<and> dot_radius (spawn_loop (const_draws (1/2)) 0 12
        \<lparr>x_s = 0, y_s = 0, size_s = 5, life = 0, hueBase = 0, id_s = ''''\<rparr> 0 1 ! 0) = 6.51"
  using spawned_radius [of "const_draws (1/2)" 1 0 12
      "\<lparr>x_s = 0, y_s = 0, size_s = 5, life = 0, hueBase = 0, id_s = ''''\<rparr>", rule_format, of 0]
  by (simp add: const_draws_def)

text \<open>
  C6 as stated fails: with brush 2 and all draws 0 the size is 1 and the dot on the
  canvas has radius 0.35.
\<close>

theorem rendered_radius_below_1:
  "max 1 (2 * (0.3 + const_draws 0 2 * 0.8)) = (1::real)
   \<and> dot_radius (hd (spawn_loop (const_draws 0) 0 2
        \<lparr>x_s = 0, y_s = 0, size_s = 5, life = 0, hueBase = 0, id_s = ''''\<rparr> 0 1)) = 0.35
   \<and> dot_radius (hd (spawn_loop (const_draws 0) 0 2
        \<lparr>x_s = 0, y_s = 0, size_s = 5, life = 0, hueBase = 0, id_s = ''''\<rparr> 0 1)) < 1"
  by (simp add: const_draws_def spawn_pixel_radius)

section \<open>The hue\<close>

lemma js_rem_hue:
  assumes "0 \<le> hb" and "hb < 1" and "-1 \<le> w" and "w \<le> 1"
  shows "- 20 \<le> js_rem (hb * 360 + w * 20) 360 \<and> js_rem (hb * 360 + w * 20) 360 < 360
     \<and> js_rem (hb * 360 + w * 20) 360 =
        (if 0 \<le> hb * 360 + w * 20 then spec_mod (hb * 360 + w * 20) 360
         else spec_mod (hb * 360 + w * 20) 360 - 360)"
proof -
  let ?v = "hb * 360 + w * 20"
  have lo: "-20 \<le> ?v" and hi: "?v < 380" using assms by simp_all
  consider "?v < 0" | "0 \<le> ?v" "?v < 360" | "360 \<le> ?v" by linarith
  then show ?thesis
  proof cases
    case 1
    have c: "\<lceil>?v / 360\<rceil> = 0" using 1 lo by (simp add: ceiling_eq_iff)
    have f: "\<lfloor>?v / 360\<rfloor> = -1" using 1 lo by (simp add: floor_eq_iff)
    have "js_rem ?v 360 = ?v" using 1 c by (simp add: js_rem_def js_trunc_def)
    moreover have "spec_mod ?v 360 = ?v + 360" using f by (simp add: spec_mod_def)
    ultimately show ?thesis using 1 lo by simp
  next
    case 2
    have f: "\<lfloor>?v / 360\<rfloor> = 0" using 2 by (simp add: floor_eq_iff)
    have "js_rem ?v 360 = ?v" using 2 f by (simp add: js_rem_def js_trunc_def)
    moreover have "spec_mod ?v 360 = ?v" using f by (simp add: spec_mod_def)
    ultimately show ?thesis using 2 by simp
  next
    case 3
    have f: "\<lfloor>?v / 360\<rfloor> = 1" using 3 hi by (simp add: floor_eq_iff)
    have "js_rem ?v 360 = ?v - 360" using 3 f by (simp add: js_rem_def js_trunc_def)
    moreover have "spec_mod ?v 360 = ?v - 360" using f by (simp add: spec_mod_def)
    ultimately show ?thesis using 3 hi by simp
  qed
qed


lemma sin_4_neg: "sin (4::real) < 0"
proof -
  have "pi < (4::real)" by (rule pi_less_4)
  moreover have "sin (pi / 6) \<le> pi / 6" by (rule sin_x_le_x) simp
  then have "(4::real) < 2 * pi" by (simp add: sin_30)
  ultimately show ?thesis by (rule sin_lt_zero)
qed

text \<open>
  C7 (as found in the code). For a seed with \<open>hueBase\<close> in [0,1), the hue of the pixel
  with batch index \<open>j\<close> is the remainder of \<open>hueBase * 360 + sin (age + j) * 20\<close> by 360
  with the sign of the dividend. It lies in [-20, 360); it equals the mathematical modulo
  when the dividend is not negative, and the mathematical modulo minus 360 otherwise.
\<close>

theorem spawned_hue:
  assumes "0 \<le> hueBase s" and "hueBase s < 1"
  shows "\<forall>j<m. dot_hue (spawn_loop rnd n brush s 0 m ! j)
                 = js_rem (hueBase s * 360 + sin (life s + real j) * 20) 360
           \<and> - 20 \<le> dot_hue (spawn_loop rnd n brush s 0 m ! j)
           \<and> dot_hue (spawn_loop rnd n brush s 0 m ! j) < 360
           \<and> dot_hue (spawn_loop rnd n brush s 0 m ! j)
               = (if 0 \<le> hueBase s * 360 + sin (life s + real j) * 20
                  then spec_hue (hueBase s) (life s) j
                  else spec_hue (hueBase s) (life s) j - 360)"
proof (intro allI impI)
  fix j assume j: "j < m"
  let ?d = "spawn_loop rnd n brush s 0 m ! j"
  have d: "dot_hue ?d = js_rem (hueBase s * 360 + sin (life s + real j) * 20) 360"
    using spawn_loop_nth [OF j, of rnd n brush s 0] by (simp add: spawn_pixel_hue pixel_hue_def)
  have "- 1 \<le> sin (life s + real j)" "sin (life s + real j) \<le> 1" by simp_all
  from js_rem_hue [OF assms this] d
  show "dot_hue ?d = js_rem (hueBase s * 360 + sin (life s + real j) * 20) 360
           \<and> - 20 \<le> dot_hue ?d \<and> dot_hue ?d < 360
           \<and> dot_hue ?d = (if 0 \<le> hueBase s * 360 + sin (life s + real j) * 20
                  then spec_hue (hueBase s) (life s) j
                  else spec_hue (hueBase s) (life s) j - 360)"
    by (simp add: spec_hue_def)
qed

theorem spawned_hue_witness:
  "(0::real) \<le> 1/2 \<and> (1/2::real) < 1
   \<and> dot_hue (spawn_loop (const_draws (1/2)) 0 12
        \<lparr>x_s = 0, y_s = 0, size_s = 5, life = 0, hueBase = 1/2, id_s = ''''\<rparr> 0 1 ! 0) = 180
   \<and> spec_hue (1/2) 0 0 = 180"
  using spawned_hue [of "\<lparr>x_s = 0, y_s = 0, size_s = 5, life = 0, hueBase = 1/2, id_s = ''''\<rparr>"
      1 "const_draws (1/2)" 0 12, rule_format, of 0]
  by (simp add: js_rem_def js_trunc_def)

text \<open>
  C7 as stated fails: for \<open>hueBase = 0\<close>, age 4 and batch index 0 the hue is
  \<open>sin 4 * 20\<close>, a negative number, while the mathematical modulo is not negative.
\<close>

theorem hue_negative:
  "dot_hue (hd (spawn_loop (const_draws 0) 0 12
        \<lparr>x_s = 0, y_s = 0, size_s = 5, life = 4, hueBase = 0, id_s = ''''\<rparr> 0 1)) < 0
   \<and> 0 \<le> spec_hue 0 4 0
   \<and> dot_hue (hd (spawn_loop (const_draws 0) 0 12
        \<lparr>x_s = 0, y_s = 0, size_s = 5, life = 4, hueBase = 0, id_s = ''''\<rparr> 0 1)) \<noteq> spec_hue 0 4 0"
proof -
  let ?v = "sin (4::real) * 20"
  have neg: "?v < 0" using sin_4_neg by simp
  have "- 1 \<le> sin (4::real)" by simp
  then have lo: "- 20 \<le> ?v" by simp
  have s18: "- 18 < sin (4::real)" "- 18 \<le> sin (4::real)"
    using \<open>- 1 \<le> sin (4::real)\<close> by linarith+
  have c: "\<lceil>?v / 360\<rceil> = 0" using neg s18 by (simp add: ceiling_eq_iff)
  have f: "\<lfloor>?v / 360\<rfloor> = - 1" using neg s18 by (simp add: floor_eq_iff)
  have h: "dot_hue (hd (spawn_loop (const_draws 0) 0 12
        \<lparr>x_s = 0, y_s = 0, size_s = 5, life = 4, hueBase = 0, id_s = ''''\<rparr> 0 1)) = ?v"
    using neg c by (simp add: spawn_pixel_hue pixel_hue_def js_rem_def js_trunc_def)
  have sp: "spec_hue 0 4 0 = ?v + 360" using f by (simp add: spec_hue_def spec_mod_def)
  show ?thesis unfolding h sp using neg lo by linarith
qed

section \<open>The seed loop of a frame\<close>

lemma seed_body_fst: "fst (seed_body rnd n speed brush s0) = growth_step speed s0"
  by (simp add: seed_body_def Let_def)

lemma splice_update_take: "i < length xs \<Longrightarrow> take i (splice i (xs[i := y])) = take i xs"
  by (simp add: splice_def)

lemma splice_update_drop: "i < length xs \<Longrightarrow> drop i (splice i (xs[i := y])) = drop (Suc i) xs"
  by (simp add: splice_def)

lemma update_drop: "i < length xs \<Longrightarrow> drop i (xs[i := y]) = y # drop (Suc i) xs"
  by (simp add: upd_conv_take_nth_drop)

lemma seed_loop_result:
  "i \<le> length sds \<Longrightarrow>
     \<exists>cmds upd. seed_loop rnd n speed brush i sds =
        Some (filter (\<lambda>t. \<not> expired t) (map (growth_step speed) (take i sds)) @ drop i sds,
              cmds, upd)"
proof (induction i arbitrary: n sds)
  case 0
  show ?case by auto
next
  case (Suc i)
  then have i: "i < length sds" by simp
  obtain s cmds n' where body: "seed_body rnd n speed brush (sds ! i) = (s, cmds, n')"
    by (cases "seed_body rnd n speed brush (sds ! i)") auto
  have s: "s = growth_step speed (sds ! i)"
    using seed_body_fst [of rnd n speed brush "sds ! i"] body by simp
  let ?sds = "if expired s then splice i (sds[i := s]) else sds[i := s]"
  have len: "i \<le> length ?sds" using i by (auto simp: splice_def)
  from Suc.IH [OF len, of n'] obtain cmds' upd where
    rec: "seed_loop rnd n' speed brush i ?sds =
        Some (filter (\<lambda>t. \<not> expired t) (map (growth_step speed) (take i ?sds)) @ drop i ?sds,
              cmds', upd)" by blast
  have tk: "take i ?sds = take i sds" using i by (simp add: splice_update_take)
  have dr: "drop i ?sds = (if expired s then drop (Suc i) sds else s # drop (Suc i) sds)"
    using i by (simp add: splice_update_drop update_drop)
  have tgt: "filter (\<lambda>t. \<not> expired t) (map (growth_step speed) (take (Suc i) sds)) @ drop (Suc i) sds
     = filter (\<lambda>t. \<not> expired t) (map (growth_step speed) (take i ?sds)) @ drop i ?sds"
    unfolding tk dr using i by (simp add: take_Suc_conv_app_nth s)
  have "seed_loop rnd n speed brush (Suc i) sds =
      Some (filter (\<lambda>t. \<not> expired t) (map (growth_step speed) (take i ?sds)) @ drop i ?sds,
            cmds @ cmds', expired s \<or> upd)"
    using i body rec by simp
  then show ?case unfolding tgt by blast
qed

lemma draw_seeds:
  "map_option fst (draw True rnd speed brush sds) =
     Some (filter (\<lambda>t. \<not> expired t) (map (growth_step speed) sds))"
proof -
  from seed_loop_result [of "length sds" sds rnd 0 speed brush]
  obtain cmds upd where "seed_loop rnd 0 speed brush (length sds) sds =
      Some (filter (\<lambda>t. \<not> expired t) (map (growth_step speed) sds), cmds, upd)"
    by auto
  then show ?thesis by (simp add: draw_def)
qed










section \<open>Seeds evolve on their own\<close>

text \<open>
  After any number of frames the population holds, in order, the seeds that never
  expired on the way, each advanced by its own growth steps.
\<close>

lemma run_frames:
  "run toString36 (frames_of fs) sds
     = Some (map (grow (speeds_of fs)) (filter (survives (speeds_of fs)) sds))"
proof (induction fs arbitrary: sds)
  case Nil
  then show ?case by (simp add: frames_of_def speeds_of_def)
next
  case (Cons f fs)
  obtain rnd v b where f: "f = (rnd, v, b)" by (cases f) auto
  let ?mid = "filter (\<lambda>t. \<not> expired t) (map (growth_step v) sds)"
  have "run toString36 (frames_of (f # fs)) sds = run toString36 (frames_of fs) ?mid"
    by (simp add: f frames_of_def draw_seeds)
  also have "\<dots> = Some (map (grow (speeds_of fs)) (filter (survives (speeds_of fs)) ?mid))"
    by (rule Cons.IH)
  also have "map (grow (speeds_of fs)) (filter (survives (speeds_of fs)) ?mid)
      = map (grow (speeds_of (f # fs))) (filter (survives (speeds_of (f # fs))) sds)"
    by (induction sds) (simp_all add: f speeds_of_def)
  finally show ?case .
qed

text \<open>
  C8 (as found in the code). For two plantings at the same coordinates, the identity token
  of each seed is characters 2 to 8 of the string the engine prints for that seed's own
  identity draw, and of nothing else. The two tokens are therefore distinct exactly when
  these two strings differ there, and they are equal whenever the two identity draws are
  equal: distinct tokens are not guaranteed. Whatever the draws, the two seeds evolve
  independently: after any frames each seed is in the population exactly if it alone
  never expired, with the state its own growth steps give it.
\<close>

theorem planted_twice:
  "id_s (new_seed toString36 rleft rtop pal cx cy r1 r2 r3) = slice 2 9 (toString36 r3)
   \<and> id_s (new_seed toString36 rleft rtop pal' cx cy q1 q2 q3) = slice 2 9 (toString36 q3)
   \<and> (r3 = q3 \<longrightarrow> id_s (new_seed toString36 rleft rtop pal cx cy r1 r2 r3)
                   = id_s (new_seed toString36 rleft rtop pal' cx cy q1 q2 q3))
   \<and> run toString36 (frames_of fs)
          (plantSeed toString36 rleft rtop pal' cx cy q1 q2 q3
            (plantSeed toString36 rleft rtop pal cx cy r1 r2 r3 sds))
        = Some (map (grow (speeds_of fs)) (filter (survives (speeds_of fs))
            (new_seed toString36 rleft rtop pal' cx cy q1 q2 q3
              # new_seed toString36 rleft rtop pal cx cy r1 r2 r3 # sds)))"
proof (intro conjI impI)
  show "id_s (new_seed toString36 rleft rtop pal cx cy r1 r2 r3) = slice 2 9 (toString36 r3)"
    by (simp add: new_seed_def id_token_def)
  show "id_s (new_seed toString36 rleft rtop pal' cx cy q1 q2 q3) = slice 2 9 (toString36 q3)"
    by (simp add: new_seed_def id_token_def)
  show "id_s (new_seed toString36 rleft rtop pal cx cy r1 r2 r3)
      = id_s (new_seed toString36 rleft rtop pal' cx cy q1 q2 q3)" if "r3 = q3"
    using that by (simp add: new_seed_def)
  show "run toString36 (frames_of fs)
          (plantSeed toString36 rleft rtop pal' cx cy q1 q2 q3
            (plantSeed toString36 rleft rtop pal cx cy r1 r2 r3 sds))
        = Some (map (grow (speeds_of fs)) (filter (survives (speeds_of fs))
            (new_seed toString36 rleft rtop pal' cx cy q1 q2 q3
              # new_seed toString36 rleft rtop pal cx cy r1 r2 r3 # sds)))"
    unfolding plantSeed_def by (rule run_frames)
qed

text \<open>The witness takes an engine that prints \<^verbatim>\<open>0.i\<close> for the identity draw 0.5 of
  both plantings.\<close>

theorem planted_twice_witness:
  "id_s (new_seed (\<lambda>r. ''0.i'') 0 0 0 10 20 (1/2) (1/2) (1/2)) = ''i''
   \<and> id_s (new_seed (\<lambda>r. ''0.i'') 0 0 0 10 20 (1/4) (1/4) (1/2)) = ''i''
   \<and> run (\<lambda>r. ''0.i'') (frames_of [(const_draws (1/2), 1, 12)])
        (plantSeed (\<lambda>r. ''0.i'') 0 0 0 10 20 (1/4) (1/4) (1/2)
          (plantSeed (\<lambda>r. ''0.i'') 0 0 0 10 20 (1/2) (1/2) (1/2) []))
      = Some [growth_step 1 (new_seed (\<lambda>r. ''0.i'') 0 0 0 10 20 (1/4) (1/4) (1/2)),
              growth_step 1 (new_seed (\<lambda>r. ''0.i'') 0 0 0 10 20 (1/2) (1/2) (1/2))]"
proof -
  have a: "\<not> expired (growth_step 1 (new_seed (\<lambda>r. ''0.i'') 0 0 0 10 20 (1/4) (1/4) (1/2)))"
    by (simp add: expired_def growth_step_life growth_step_size new_seed_def)
  have b: "\<not> expired (growth_step 1 (new_seed (\<lambda>r. ''0.i'') 0 0 0 10 20 (1/2) (1/2) (1/2)))"
    by (simp add: expired_def growth_step_life growth_step_size new_seed_def)
  from planted_twice [of "\<lambda>r. ''0.i''" 0 0 0 10 20 "1/2" "1/2" "1/2" 0 "1/4" "1/4" "1/2"
      "[(const_draws (1/2), 1, 12)]" "[]"] a b
  show ?thesis by (simp add: speeds_of_def slice_def)
qed

text \<open>
  C8 as stated fails: two plantings at the same coordinates whose identity draws are both
  0.5 have the same token, whatever the engine prints for 0.5.
\<close>

theorem planted_twice_same_id:
  "\<forall>toString36. id_s (new_seed toString36 0 0 0 10 20 (1/4) (3/4) (1/2))
                   = id_s (new_seed toString36 0 0 0 10 20 (3/4) (1/4) (1/2))"
  by (simp add: new_seed_def)

section \<open>Resizing\<close>

text \<open>
  C9 (as found in the code). When the container has zero area, the resize handler still
  assigns both canvas dimensions, \<open>clientWidth * devicePixelRatio\<close> and
  \<open>clientHeight * devicePixelRatio\<close>, so the canvas gets zero area, and it resets the
  transform to the device pixel ratio; the client size is left as it was.
\<close>

theorem handleResize_zero_area:
  assumes "clientWidth c = 0 \<or> clientHeight c = 0"
  shows "width (handleResize dpr c) = clientWidth c * dpr
     \<and> height (handleResize dpr c) = clientHeight c * dpr
     \<and> width (handleResize dpr c) * height (handleResize dpr c) = 0
     \<and> transform (handleResize dpr c) = (dpr, 0, 0, dpr, 0, 0)
     \<and> clientWidth (handleResize dpr c) = clientWidth c
     \<and> clientHeight (handleResize dpr c) = clientHeight c"
  using assms by (auto simp: handleResize_def)

theorem handleResize_zero_area_witness:
  "clientWidth \<lparr>width = 300, height = 150, clientWidth = 0, clientHeight = 150,
       transform = (1, 0, 0, 1, 0, 0)\<rparr> = 0
   \<and> width (handleResize 2 \<lparr>width = 300, height = 150, clientWidth = 0, clientHeight = 150,
       transform = (1, 0, 0, 1, 0, 0)\<rparr>) = 0
   \<and> height (handleResize 2 \<lparr>width = 300, height = 150, clientWidth = 0, clientHeight = 150,
       transform = (1, 0, 0, 1, 0, 0)\<rparr>) = 300"
  using handleResize_zero_area [of "\<lparr>width = 300, height = 150, clientWidth = 0, clientHeight = 150,
       transform = (1, 0, 0, 1, 0, 0)\<rparr>" 2]
  by simp

text \<open>
  C9 as stated fails: a canvas 300 wide in a container of client width 0 is 0 wide after
  the handler ran.
\<close>

theorem handleResize_not_noop:
  "clientWidth \<lparr>width = 300, height = 150, clientWidth = 0, clientHeight = 150,
       transform = (1, 0, 0, 1, 0, 0)\<rparr> = 0
   \<and> width \<lparr>width = 300, height = 150, clientWidth = 0, clientHeight = 150,
       transform = (1, 0, 0, 1, 0, 0)\<rparr> = 300
   \<and> width (handleResize 1 \<lparr>width = 300, height = 150, clientWidth = 0, clientHeight = 150,
       transform = (1, 0, 0, 1, 0, 0)\<rparr>) = 0
   \<and> handleResize 1 \<lparr>width = 300, height = 150, clientWidth = 0, clientHeight = 150,
       transform = (1, 0, 0, 1, 0, 0)\<rparr>
      \<noteq> \<lparr>width = 300, height = 150, clientWidth = 0, clientHeight = 150,
       transform = (1, 0, 0, 1, 0, 0)\<rparr>"
  by (simp add: handleResize_def)

end
